theory Spec2Isabelle
  imports Complex_Main
begin

section \<open>JavaScript values\<close>

text \<open>
  The service in \<^verbatim>\<open>src/service.js\<close> keeps three plain objects in module variables and
  mutates them from exported functions. The model below follows the file top to bottom.

  A JavaScript number is idealised as a real number or \<open>NaN\<close> (rounding of doubles and the
  infinities are not modelled). The values a request body can carry are the JSON values
  plus \<open>undefined\<close> for a field that is absent.
\<close>

datatype jsnum = NaN | Num real

datatype jsval =
    JUndefined
  | JNull
  | JBool bool
  | JNumber jsnum
  | JString string
  | JArray "jsval list"
  | JObject "(string \<times> jsval) list"

text \<open>Truthiness, as tested by \<^verbatim>\<open>if (v)\<close> and \<^verbatim>\<open>!v\<close>.\<close>

fun truthy :: "jsval \<Rightarrow> bool" where
  "truthy JUndefined = False"
| "truthy JNull = False"
| "truthy (JBool b) = b"
| "truthy (JNumber NaN) = False"
| "truthy (JNumber (Num r)) = (r \<noteq> 0)"
| "truthy (JString s) = (s \<noteq> [])"
| "truthy (JArray xs) = True"
| "truthy (JObject kvs) = True"

text \<open>
  Strict equality \<^verbatim>\<open>===\<close>. Primitives are compared by value (\<open>NaN\<close> equals nothing).
  Arrays and objects are compared by reference: the two operands of every comparison in
  the service are a stored value and an argument of the current call, taken to be different
  objects (a caller handing over the very same object twice is not modelled), so the
  comparison is false.
\<close>

fun strict_eq :: "jsval \<Rightarrow> jsval \<Rightarrow> bool" where
  "strict_eq JUndefined JUndefined = True"
| "strict_eq JNull JNull = True"
| "strict_eq (JBool a) (JBool b) = (a = b)"
| "strict_eq (JNumber (Num a)) (JNumber (Num b)) = (a = b)"
| "strict_eq (JString a) (JString b) = (a = b)"
| "strict_eq _ _ = False"

text \<open>\<^verbatim>\<open>Array.prototype.includes\<close> compares with SameValueZero: as \<^verbatim>\<open>===\<close>, except that
  \<open>NaN\<close> is found.\<close>

fun same_value_zero :: "jsval \<Rightarrow> jsval \<Rightarrow> bool" where
  "same_value_zero (JNumber NaN) (JNumber NaN) = True"
| "same_value_zero a b = strict_eq a b"

definition Array_includes :: "jsval list \<Rightarrow> jsval \<Rightarrow> bool" where
  "Array_includes xs v = list_ex (\<lambda>x. same_value_zero x v) xs"

text \<open>Numeric arguments (\<open>price\<close>, \<open>totalPrice\<close>) are a number or absent (\<open>None\<close> is
  \<open>undefined\<close>); other argument types would go through \<open>ToNumber\<close>, which is not modelled.\<close>

type_synonym numarg = "jsnum option"

fun isNaN :: "numarg \<Rightarrow> bool" where
  "isNaN None = True"
| "isNaN (Some NaN) = True"
| "isNaN (Some (Num r)) = False"

fun lt_zero :: "numarg \<Rightarrow> bool" where
  "lt_zero (Some (Num r)) = (r < 0)"
| "lt_zero _ = False"

fun truthy_num :: "numarg \<Rightarrow> bool" where
  "truthy_num (Some (Num r)) = (r \<noteq> 0)"
| "truthy_num _ = False"

text \<open>String arguments (\<open>email\<close>, \<open>password\<close>, \<open>name\<close>) are a string or absent; \<^verbatim>\<open>!s\<close>
  holds for an absent and for an empty string.\<close>

fun falsy_str :: "string option \<Rightarrow> bool" where
  "falsy_str None = True"
| "falsy_str (Some s) = (s = [])"

subsection \<open>Decimal strings\<close>

definition is_digit :: "char \<Rightarrow> bool" where
  "is_digit c = (c \<in> set ''0123456789'')"

definition digit_val :: "char \<Rightarrow> nat" where
  "digit_val c = of_char c - 48"

definition digits_val :: "string \<Rightarrow> nat" where
  "digits_val ds = foldl (\<lambda>a c. 10 * a + digit_val c) 0 ds"

text \<open>
  \<^verbatim>\<open>parseInt\<close> is a function of the language and not of the service: the enumerations
  below take it, with the radix 10, as the parameter \<open>parseInt10\<close>. For the examples,
  \<open>decimal_value\<close> is what \<^verbatim>\<open>parseInt(s, 10)\<close> returns for a string of decimal digits that
  denotes an integer below \<open>2^53\<close> (such an integer is a double); it is \<open>NaN\<close> on every other
  string and says nothing about the language there.
\<close>

definition decimal_value :: "string \<Rightarrow> jsnum" where
  "decimal_value s =
     (if s \<noteq> [] \<and> list_all is_digit s \<and> digits_val s < 2 ^ 53 then Num (real (digits_val s))
      else NaN)"

text \<open>\<^verbatim>\<open>R.toString()\<close> for an integer \<open>R\<close>.\<close>

fun digits10 :: "nat \<Rightarrow> string" where
  "digits10 n =
     (if n < 10 then [''0123456789'' ! n]
      else digits10 (n div 10) @ [''0123456789'' ! (n mod 10)])"

declare digits10.simps [simp del]

definition Number_toString :: "int \<Rightarrow> string" where
  "Number_toString R = (if R < 0 then CHR ''-'' # digits10 (nat (- R)) else digits10 (nat R))"

subsection \<open>Objects used as dictionaries\<close>

text \<open>
  \<open>users\<close>, \<open>listings\<close> and \<open>bookings\<close> are objects keyed by strings. An object is the list
  of its own properties in creation order. Properties inherited from \<open>Object.prototype\<close>
  (\<^verbatim>\<open>'constructor' in listings\<close> is true in JavaScript) are not modelled.
\<close>

type_synonym 'a obj = "(string \<times> 'a) list"

definition has_key :: "string \<Rightarrow> 'a obj \<Rightarrow> bool" where
  "has_key k obj = (k \<in> set (map fst obj))"

definition obj_get :: "'a obj \<Rightarrow> string \<Rightarrow> 'a option" where
  "obj_get obj k = map_of obj k"

text \<open>\<^verbatim>\<open>obj[k] = v\<close>: an existing property keeps its place, a new one is added last.\<close>

fun obj_set :: "string \<Rightarrow> 'a \<Rightarrow> 'a obj \<Rightarrow> 'a obj" where
  "obj_set k v [] = [(k, v)]"
| "obj_set k v (p # ps) = (if fst p = k then (k, v) # ps else p # obj_set k v ps)"

text \<open>\<^verbatim>\<open>delete obj[k]\<close>.\<close>

definition obj_delete :: "string \<Rightarrow> 'a obj \<Rightarrow> 'a obj" where
  "obj_delete k obj = filter (\<lambda>p. fst p \<noteq> k) obj"

text \<open>
  \<^verbatim>\<open>Object.keys\<close> lists the array-index keys (canonical decimal strings below \<open>2^32 - 1\<close>)
  in ascending numeric order, then the other keys in creation order.
\<close>

definition is_array_index :: "string \<Rightarrow> bool" where
  "is_array_index k =
     (k \<noteq> [] \<and> list_all is_digit k \<and> (k = ''0'' \<or> hd k \<noteq> CHR ''0'')
      \<and> digits_val k < 2 ^ 32 - 1)"

definition Object_keys :: "'a obj \<Rightarrow> string list" where
  "Object_keys obj =
     sort_key digits_val (filter is_array_index (map fst obj))
     @ filter (\<lambda>k. \<not> is_array_index k) (map fst obj)"

text \<open>\<^verbatim>\<open>Array.prototype.find\<close>; \<open>None\<close> is \<open>undefined\<close>.\<close>

definition Array_find :: "('a \<Rightarrow> bool) \<Rightarrow> 'a list \<Rightarrow> 'a option" where
  "Array_find P xs = List.find P xs"

section \<open>State Management\<close>

record user =
  name :: string
  password :: string
  sessionActive :: bool

record listing =
  title :: jsval
  owner :: string
  address :: jsval
  price :: numarg
  thumbnail :: jsval
  metadata :: jsval
  reviews :: "jsval list"
  availability :: jsval
  published :: bool
  postedOn :: "string option"

record booking =
  owner :: string
  dateRange :: jsval
  totalPrice :: numarg
  listingId :: string
  status :: string

record state =
  users :: "user obj"
  listings :: "listing obj"
  bookings :: "booking obj"

definition empty_state :: state where
  "empty_state = \<lparr> users = [], listings = [], bookings = [] \<rparr>"

text \<open>Errors a promise can reject with. \<open>TypeError\<close> is what reading a property of
  \<open>undefined\<close> throws; an exception thrown in a promise executor rejects the promise.\<close>

datatype error = InputError string | AccessError string | TypeError | Error string

section \<open>Helper Functions\<close>

text \<open>
  \<^verbatim>\<open>Math.random()\<close> is an input: each call of \<open>randNum\<close> consumes the next element \<open>u\<close>,
  \<open>0 \<le> u < 1\<close>, of a list of draws.
\<close>

definition Math_floor :: "real \<Rightarrow> int" where
  "Math_floor x = \<lfloor>x\<rfloor>"

definition Math_round :: "real \<Rightarrow> int" where
  "Math_round x = \<lfloor>x + 1 / 2\<rfloor>"

definition randNum :: "int \<Rightarrow> real \<Rightarrow> int" where
  "randNum mx u =
     Math_round (u * (of_int mx - of_int (Math_floor (of_int mx / 10)))
                 + of_int (Math_floor (of_int mx / 10)))"

text \<open>
  The loop of \<open>generateId\<close>. \<open>currentList\<close> is the array that \<open>Object.keys\<close> returned, so its
  elements are strings; \<open>R\<close> is the number drawn. When the draws are used up while the loop
  still asks for one, the model returns \<open>None\<close>.
\<close>

fun generateId_loop :: "jsval list \<Rightarrow> int \<Rightarrow> int \<Rightarrow> real list \<Rightarrow> string option" where
  "generateId_loop currentList mx R [] =
     (if Array_includes currentList (JNumber (Num (of_int R))) then None
      else Some (Number_toString R))"
| "generateId_loop currentList mx R (u # us) =
     (if Array_includes currentList (JNumber (Num (of_int R)))
      then generateId_loop currentList mx (randNum mx u) us
      else Some (Number_toString R))"

definition generateId :: "string list \<Rightarrow> int \<Rightarrow> real list \<Rightarrow> string option" where
  "generateId currentList mx draws =
     (case draws of
        [] \<Rightarrow> None
      | u # us \<Rightarrow> generateId_loop (map JString currentList) mx (randNum mx u) us)"

definition newListingId :: "state \<Rightarrow> real list \<Rightarrow> string option" where
  "newListingId s draws = generateId (Object_keys (listings s)) 999999999 draws"

definition newBookingId :: "state \<Rightarrow> real list \<Rightarrow> string option" where
  "newBookingId s draws = generateId (Object_keys (bookings s)) 999999999 draws"

text \<open>
  \<open>resourceLock\<close> builds a promise whose executor evaluates
  \<^verbatim>\<open>callback(resolve, reject)\<close> as the argument of \<^verbatim>\<open>lock.acquire\<close>: the body of the
  callback has run to its end, and has settled the promise, before \<^verbatim>\<open>lock.acquire\<close> is
  entered. An operation is therefore a function from the state at the call to the
  settlement and the state after it.
\<close>

definition resourceLock :: "(state \<Rightarrow> 'r) \<Rightarrow> state \<Rightarrow> 'r" where
  "resourceLock callback s = callback s"

section \<open>Persistence\<close>

text \<open>
  The two stores: the value under the key \<^verbatim>\<open>airbrb_data\<close> and the content of
  \<^verbatim>\<open>./database.json\<close> (the snapshot rather than its JSON text). Whether a write throws
  is decided by the environment: \<open>redis_set_fails\<close> for \<^verbatim>\<open>redis.set\<close>, \<open>write_fails\<close> for
  the \<^verbatim>\<open>writeFileSync\<close> of the \<^verbatim>\<open>try\<close> block and \<open>fallback_write_fails\<close> for the one of
  the \<^verbatim>\<open>catch\<close> block. A write that throws is taken to leave the store as it was.
\<close>

record storage =
  redis_data :: "state option"
  database_file :: "state option"

record io =
  hasRedisCredentials :: bool
  redis_set_fails :: bool
  write_fails :: bool
  fallback_write_fails :: bool

definition fallback_write :: "state \<Rightarrow> io \<Rightarrow> storage \<Rightarrow> (error + unit) \<times> storage" where
  "fallback_write snap e st =
     (if fallback_write_fails e then (Inl (Error ''Writing to storage failed''), st)
      else (Inr (), st\<lparr>database_file := Some snap\<rparr>))"

definition update ::
  "user obj \<Rightarrow> listing obj \<Rightarrow> booking obj \<Rightarrow> io \<Rightarrow> storage \<Rightarrow> (error + unit) \<times> storage" where
  "update users' listings' bookings' e st =
     (let snap = \<lparr> users = users', listings = listings', bookings = bookings' \<rparr> in
      if hasRedisCredentials e then
        (if redis_set_fails e then fallback_write snap e st
         else (Inr (), st\<lparr>redis_data := Some snap\<rparr>))
      else
        (if write_fails e then fallback_write snap e st
         else (Inr (), st\<lparr>database_file := Some snap\<rparr>)))"

record world =
  mem :: state
  store :: storage

definition save :: "io \<Rightarrow> world \<Rightarrow> (error + unit) \<times> world" where
  "save e w =
     (case update (users (mem w)) (listings (mem w)) (bookings (mem w)) e (store w) of
        (r, st') \<Rightarrow> (r, w\<lparr>store := st'\<rparr>))"

text \<open>\<open>reset\<close> awaits the save of three empty objects and assigns the module variables
  only after it: a rejected save leaves them as they were.\<close>

definition reset :: "io \<Rightarrow> world \<Rightarrow> (error + unit) \<times> world" where
  "reset e w =
     (case update [] [] [] e (store w) of
        (Inl err, st') \<Rightarrow> (Inl err, w\<lparr>store := st'\<rparr>)
      | (Inr u, st') \<Rightarrow>
          (Inr (), \<lparr> mem = \<lparr> users = [], listings = [], bookings = [] \<rparr>, store = st' \<rparr>))"

section \<open>Auth Functions\<close>

text \<open>The token that \<^verbatim>\<open>jwt.sign\<close> returns is represented by the email it signs.\<close>

datatype token = Token string

definition login :: "string option \<Rightarrow> string option \<Rightarrow> state \<Rightarrow> (error + token) \<times> state" where
  "login email password' = resourceLock (\<lambda>s.
     if falsy_str email then (Inl (InputError ''Must provide an email for user login''), s)
     else if falsy_str password' then
       (Inl (InputError ''Must provide a password for user login''), s)
     else
       (case obj_get (users s) (the email) of
          Some u \<Rightarrow>
            if password u = the password' then
              (Inr (Token (the email)),
               s\<lparr>users := obj_set (the email) (u\<lparr>sessionActive := True\<rparr>) (users s)\<rparr>)
            else (Inl (InputError ''Invalid email or password''), s)
        | None \<Rightarrow> (Inl (InputError ''Invalid email or password''), s)))"

definition logout :: "string \<Rightarrow> state \<Rightarrow> (error + unit) \<times> state" where
  "logout email = resourceLock (\<lambda>s.
     case obj_get (users s) email of
       None \<Rightarrow> (Inl TypeError, s)
     | Some u \<Rightarrow> (Inr (), s\<lparr>users := obj_set email (u\<lparr>sessionActive := False\<rparr>) (users s)\<rparr>))"

definition register ::
  "string option \<Rightarrow> string option \<Rightarrow> string option \<Rightarrow> state \<Rightarrow> (error + token) \<times> state" where
  "register email password' name' = resourceLock (\<lambda>s.
     if falsy_str email then
       (Inl (InputError ''Must provide an email for user registration''), s)
     else if falsy_str password' then
       (Inl (InputError ''Must provide a password for user registration''), s)
     else if falsy_str name' then
       (Inl (InputError ''Must provide a name for user registration''), s)
     else if has_key (the email) (users s) then
       (Inl (InputError ''Email address already registered''), s)
     else
       (Inr (Token (the email)),
        s\<lparr>users := obj_set (the email)
             \<lparr> name = the name', password = the password', sessionActive = True \<rparr> (users s)\<rparr>))"

section \<open>Listing Functions\<close>

definition newListingPayload ::
  "jsval \<Rightarrow> string \<Rightarrow> jsval \<Rightarrow> numarg \<Rightarrow> jsval \<Rightarrow> jsval \<Rightarrow> listing" where
  "newListingPayload title' owner' address' price' thumbnail' metadata' =
     \<lparr> title = title',
       listing.owner = owner',
       address = address',
       price = price',
       thumbnail = thumbnail',
       metadata = metadata',
       reviews = [],
       availability = JArray [],
       published = False,
       postedOn = None \<rparr>"

definition assertOwnsListing :: "string \<Rightarrow> string \<Rightarrow> state \<Rightarrow> (error + unit) \<times> state" where
  "assertOwnsListing email listingId' = resourceLock (\<lambda>s.
     case obj_get (listings s) listingId' of
       None \<Rightarrow> (Inl (InputError ''Invalid listing ID''), s)
     | Some l \<Rightarrow>
         if listing.owner l \<noteq> email then (Inl (InputError ''User does not own this Listing''), s)
         else (Inr (), s))"

definition assertOwnsBooking :: "string \<Rightarrow> string \<Rightarrow> state \<Rightarrow> (error + unit) \<times> state" where
  "assertOwnsBooking email bookingId = resourceLock (\<lambda>s.
     case obj_get (bookings s) bookingId of
       None \<Rightarrow> (Inl (InputError ''Invalid booking ID''), s)
     | Some b \<Rightarrow>
         if booking.owner b \<noteq> email then (Inl (InputError ''User does not own this booking''), s)
         else (Inr (), s))"

text \<open>
  The test \<^verbatim>\<open>listings[key].title === title\<close> runs on the keys of \<open>listings\<close> itself, so
  the listing read is always there. An operation that draws an id takes the list of draws;
  \<open>None\<close> stands for a call whose loop in \<open>generateId\<close> does not end within them.
\<close>

definition title_taken :: "state \<Rightarrow> jsval \<Rightarrow> bool" where
  "title_taken s title' =
     (Array_find
        (\<lambda>key. case obj_get (listings s) key of
                  Some l \<Rightarrow> strict_eq (title l) title'
                | None \<Rightarrow> False)
        (Object_keys (listings s)) \<noteq> None)"

definition addListing ::
  "real list \<Rightarrow> jsval \<Rightarrow> string \<Rightarrow> jsval \<Rightarrow> numarg \<Rightarrow> jsval \<Rightarrow> jsval \<Rightarrow> state
     \<Rightarrow> ((error + string) \<times> state) option" where
  "addListing draws title' email address' price' thumbnail' metadata' = resourceLock (\<lambda>s.
      if title' = JUndefined then
        Some (Inl (InputError ''Must provide a title for new listing''), s)
      else if title_taken s title' then
        Some (Inl (InputError ''A listing with this title already exists''), s)
      else if address' = JUndefined then
        Some (Inl (InputError ''Must provide an address for new listing''), s)
      else if price' = None \<or> isNaN price' then
        Some (Inl (InputError ''Must provide a valid price for new listing''), s)
      else if thumbnail' = JUndefined then
        Some (Inl (InputError ''Must provide a thumbnail for new listing''), s)
      else if metadata' = JUndefined then
        Some (Inl (InputError ''Must provide property details for this listing''), s)
      else
        (case newListingId s draws of
           None \<Rightarrow> None
         | Some id' \<Rightarrow>
             Some (Inr id',
                   s\<lparr>listings :=
                       obj_set id'
                         (newListingPayload title' email address' price' thumbnail' metadata')
                         (listings s)\<rparr>)))"

text \<open>\<^verbatim>\<open>{...listings[listingId]}\<close> is a copy of the listing, or \<^verbatim>\<open>{}\<close> when there is none.\<close>

definition getListingDetails :: "string \<Rightarrow> state \<Rightarrow> (error + listing option) \<times> state" where
  "getListingDetails listingId' = resourceLock (\<lambda>s. (Inr (obj_get (listings s) listingId'), s))"

record listing_view =
  lv_id :: jsnum
  lv_title :: jsval
  lv_owner :: string
  lv_address :: jsval
  lv_thumbnail :: jsval
  lv_price :: numarg
  lv_reviews :: "jsval list"

definition listing_entry :: "(string \<Rightarrow> jsnum) \<Rightarrow> string \<Rightarrow> listing \<Rightarrow> listing_view" where
  "listing_entry parseInt10 key l =
     \<lparr> lv_id = parseInt10 key,
       lv_title = title l,
       lv_owner = listing.owner l,
       lv_address = address l,
       lv_thumbnail = thumbnail l,
       lv_price = price l,
       lv_reviews = reviews l \<rparr>"

text \<open>Mapping over the keys: a key without a listing would throw at \<^verbatim>\<open>listings[key].title\<close>.\<close>

definition getAllListings ::
  "(string \<Rightarrow> jsnum) \<Rightarrow> state \<Rightarrow> (error + listing_view list) \<times> state" where
  "getAllListings parseInt10 = resourceLock (\<lambda>s.
     case those (map (\<lambda>key. map_option (listing_entry parseInt10 key)
                              (obj_get (listings s) key))
                     (Object_keys (listings s))) of
       None \<Rightarrow> (Inl TypeError, s)
     | Some vs \<Rightarrow> (Inr vs, s))"

text \<open>
  Statements of a callback, run one after the other until one throws.
  \<open>assign_listing listingId f\<close> is an assignment to a field of \<^verbatim>\<open>listings[listingId]\<close>,
  which throws when there is no such listing.
\<close>

definition seq ::
  "(state \<Rightarrow> (error + unit) \<times> state) \<Rightarrow> (state \<Rightarrow> (error + 'a) \<times> state)
     \<Rightarrow> state \<Rightarrow> (error + 'a) \<times> state" where
  "seq f g s = (case f s of (Inl err, s') \<Rightarrow> (Inl err, s') | (Inr u, s') \<Rightarrow> g s')"

definition if_then ::
  "bool \<Rightarrow> (state \<Rightarrow> (error + unit) \<times> state) \<Rightarrow> state \<Rightarrow> (error + unit) \<times> state" where
  "if_then c f s = (if c then f s else (Inr (), s))"

definition assign_listing ::
  "string \<Rightarrow> (listing \<Rightarrow> listing) \<Rightarrow> state \<Rightarrow> (error + unit) \<times> state" where
  "assign_listing listingId' f s =
     (case obj_get (listings s) listingId' of
        None \<Rightarrow> (Inl TypeError, s)
      | Some l \<Rightarrow> (Inr (), s\<lparr>listings := obj_set listingId' (f l) (listings s)\<rparr>))"

definition resolve :: "'a \<Rightarrow> state \<Rightarrow> (error + 'a) \<times> state" where
  "resolve v s = (Inr v, s)"

definition updateListing ::
  "string \<Rightarrow> jsval \<Rightarrow> jsval \<Rightarrow> jsval \<Rightarrow> numarg \<Rightarrow> jsval \<Rightarrow> state \<Rightarrow> (error + unit) \<times> state" where
  "updateListing listingId' title' address' thumbnail' price' metadata' = resourceLock (
     seq (if_then (truthy address') (assign_listing listingId' (\<lambda>l. l\<lparr>address := address'\<rparr>)))
    (seq (if_then (truthy title') (assign_listing listingId' (\<lambda>l. l\<lparr>title := title'\<rparr>)))
    (seq (if_then (truthy thumbnail') (assign_listing listingId' (\<lambda>l. l\<lparr>thumbnail := thumbnail'\<rparr>)))
    (seq (if_then (truthy_num price') (assign_listing listingId' (\<lambda>l. l\<lparr>price := price'\<rparr>)))
    (seq (if_then (truthy metadata') (assign_listing listingId' (\<lambda>l. l\<lparr>metadata := metadata'\<rparr>)))
    (resolve ()))))))"

definition removeListing :: "string \<Rightarrow> state \<Rightarrow> (error + unit) \<times> state" where
  "removeListing listingId' = resourceLock (\<lambda>s.
     (Inr (), s\<lparr>listings := obj_delete listingId' (listings s)\<rparr>))"

text \<open>\<open>now\<close> is the string that \<^verbatim>\<open>new Date().toISOString()\<close> gives at the call.\<close>

definition publishListing ::
  "string \<Rightarrow> string \<Rightarrow> jsval \<Rightarrow> state \<Rightarrow> (error + unit) \<times> state" where
  "publishListing now listingId' availability' = resourceLock (\<lambda>s.
     if availability' = JUndefined then
       (Inl (InputError ''Must provide listing availability''), s)
     else
       (case obj_get (listings s) listingId' of
          None \<Rightarrow> (Inl TypeError, s)
        | Some l \<Rightarrow>
            if published l = True then
              (Inl (InputError ''This listing is already published''), s)
            else
              (Inr (),
               s\<lparr>listings :=
                   obj_set listingId'
                     (l\<lparr>availability := availability', published := True, postedOn := Some now\<rparr>)
                     (listings s)\<rparr>)))"

definition unpublishListing :: "string \<Rightarrow> state \<Rightarrow> (error + unit) \<times> state" where
  "unpublishListing listingId' = resourceLock (\<lambda>s.
     case obj_get (listings s) listingId' of
       None \<Rightarrow> (Inl TypeError, s)
     | Some l \<Rightarrow>
         if published l = False then
           (Inl (InputError ''This listing is already unpublished''), s)
         else
           (Inr (),
            s\<lparr>listings :=
                obj_set listingId'
                  (l\<lparr>availability := JArray [], published := False, postedOn := None\<rparr>)
                  (listings s)\<rparr>))"

definition leaveListingReview ::
  "string \<Rightarrow> string \<Rightarrow> string \<Rightarrow> jsval \<Rightarrow> state \<Rightarrow> (error + unit) \<times> state" where
  "leaveListingReview email listingId' bookingId review = resourceLock (\<lambda>s.
     case obj_get (bookings s) bookingId of
       None \<Rightarrow> (Inl (InputError ''Invalid booking ID''), s)
     | Some b \<Rightarrow>
         (case obj_get (listings s) listingId' of
            None \<Rightarrow> (Inl (InputError ''Invalid listing ID''), s)
          | Some l \<Rightarrow>
              if booking.owner b \<noteq> email then
                (Inl (InputError ''User has not stayed at this listing''), s)
              else if listingId b \<noteq> listingId' then
                (Inl (InputError ''This booking is not associated with this listing ID''), s)
              else if review = JUndefined then
                (Inl (InputError ''Must provide review contents''), s)
              else
                (Inr (),
                 s\<lparr>listings :=
                     obj_set listingId' (l\<lparr>reviews := reviews l @ [review]\<rparr>) (listings s)\<rparr>)))"

section \<open>Booking Functions\<close>

definition newBookingPayload :: "string \<Rightarrow> jsval \<Rightarrow> numarg \<Rightarrow> string \<Rightarrow> booking" where
  "newBookingPayload owner' dateRange' totalPrice' listingId' =
     \<lparr> booking.owner = owner',
       dateRange = dateRange',
       totalPrice = totalPrice',
       listingId = listingId',
       status = ''pending'' \<rparr>"

definition makeNewBooking ::
  "real list \<Rightarrow> string \<Rightarrow> jsval \<Rightarrow> numarg \<Rightarrow> string \<Rightarrow> state
     \<Rightarrow> ((error + string) \<times> state) option" where
  "makeNewBooking draws owner' dateRange' totalPrice' listingId' = resourceLock (\<lambda>s.
     case obj_get (listings s) listingId' of
       None \<Rightarrow> Some (Inl (InputError ''Invalid listing ID''), s)
     | Some l \<Rightarrow>
         if dateRange' = JUndefined then
           Some (Inl (InputError ''Must provide a valid date range for the booking''), s)
         else if totalPrice' = None \<or> lt_zero totalPrice' \<or> isNaN totalPrice' then
           Some (Inl (InputError ''Must provide a valid total price for this booking''), s)
         else if listing.owner l = owner' then
           Some (Inl (InputError ''Cannot make bookings for your own listings''), s)
         else if published l = False then
           Some (Inl (InputError ''Cannot make a booking for an unpublished listing''), s)
         else
           (case newBookingId s draws of
              None \<Rightarrow> None
            | Some id' \<Rightarrow>
                Some (Inr id',
                      s\<lparr>bookings :=
                          obj_set id'
                            (newBookingPayload owner' dateRange' totalPrice' listingId')
                            (bookings s)\<rparr>)))"

record booking_view =
  bv_id :: jsnum
  bv_owner :: string
  bv_dateRange :: jsval
  bv_totalPrice :: numarg
  bv_listingId :: string
  bv_status :: string

definition booking_entry :: "(string \<Rightarrow> jsnum) \<Rightarrow> string \<Rightarrow> booking \<Rightarrow> booking_view" where
  "booking_entry parseInt10 key b =
     \<lparr> bv_id = parseInt10 key,
       bv_owner = booking.owner b,
       bv_dateRange = dateRange b,
       bv_totalPrice = totalPrice b,
       bv_listingId = listingId b,
       bv_status = status b \<rparr>"

definition getAllBookings ::
  "(string \<Rightarrow> jsnum) \<Rightarrow> state \<Rightarrow> (error + booking_view list) \<times> state" where
  "getAllBookings parseInt10 = resourceLock (\<lambda>s.
     case those (map (\<lambda>key. map_option (booking_entry parseInt10 key)
                              (obj_get (bookings s) key))
                     (Object_keys (bookings s))) of
       None \<Rightarrow> (Inl TypeError, s)
     | Some vs \<Rightarrow> (Inr vs, s))"

definition removeBooking :: "string \<Rightarrow> state \<Rightarrow> (error + unit) \<times> state" where
  "removeBooking bookingId = resourceLock (\<lambda>s.
     (Inr (), s\<lparr>bookings := obj_delete bookingId (bookings s)\<rparr>))"

text \<open>The guard shared by \<open>acceptBooking\<close> and \<open>declineBooking\<close>: no key of \<open>listings\<close> is the
  booking's \<open>listingId\<close> with a listing owned by the caller.\<close>

definition not_your_listing :: "state \<Rightarrow> string \<Rightarrow> booking \<Rightarrow> bool" where
  "not_your_listing s owner' b =
     (Array_find
        (\<lambda>key. key = listingId b \<and>
               (case obj_get (listings s) key of
                  Some l \<Rightarrow> listing.owner l = owner'
                | None \<Rightarrow> False))
        (Object_keys (listings s)) = None)"

definition acceptBooking :: "string \<Rightarrow> string \<Rightarrow> state \<Rightarrow> (error + unit) \<times> state" where
  "acceptBooking owner' bookingId = resourceLock (\<lambda>s.
     case obj_get (bookings s) bookingId of
       None \<Rightarrow> (Inl (InputError ''Invalid booking ID''), s)
     | Some b \<Rightarrow>
         if not_your_listing s owner' b then
           (Inl (InputError ''Cannot accept bookings for a listing that isn't yours''), s)
         else if status b = ''accepted'' then
           (Inl (InputError ''Booking has already been accepted''), s)
         else if status b = ''declined'' then
           (Inl (InputError ''Booking has already been declined''), s)
         else
           (Inr (), s\<lparr>bookings := obj_set bookingId (b\<lparr>status := ''accepted''\<rparr>) (bookings s)\<rparr>))"

definition declineBooking :: "string \<Rightarrow> string \<Rightarrow> state \<Rightarrow> (error + unit) \<times> state" where
  "declineBooking owner' bookingId = resourceLock (\<lambda>s.
     case obj_get (bookings s) bookingId of
       None \<Rightarrow> (Inl (InputError ''Invalid booking ID''), s)
     | Some b \<Rightarrow>
         if not_your_listing s owner' b then
           (Inl (InputError ''Cannot accept bookings for a listing that isn't yours''), s)
         else if status b = ''declined'' then
           (Inl (InputError ''Booking has already been declined''), s)
         else if status b = ''accepted'' then
           (Inl (InputError ''Booking has already been accepted''), s)
         else
           (Inr (), s\<lparr>bookings := obj_set bookingId (b\<lparr>status := ''declined''\<rparr>) (bookings s)\<rparr>))"

section \<open>Reachable states\<close>

text \<open>
  The states the exported functions can produce from three empty objects. The functions
  that only read (\<open>getEmailFromAuthorization\<close>, \<open>assertOwnsListing\<close>, \<open>assertOwnsBooking\<close>,
  \<open>getListingDetails\<close>, \<open>getAllListings\<close>, \<open>getAllBookings\<close>, \<open>save\<close>) leave the state as it
  is and have no rule. Values are immutable here: a caller is taken not to change an array
  or object after passing it in or getting it back (the \<open>reviews\<close> and \<open>availability\<close> of a
  listing handed out are the stored arrays themselves).
\<close>

inductive reachable :: "state \<Rightarrow> bool" where
  r_init: "reachable empty_state"
| r_reset: "reachable s \<Longrightarrow> reachable (mem (snd (reset e \<lparr> mem = s, store = st \<rparr>)))"
| r_login: "reachable s \<Longrightarrow> reachable (snd (login email password' s))"
| r_logout: "reachable s \<Longrightarrow> reachable (snd (logout email' s))"
| r_register: "reachable s \<Longrightarrow> reachable (snd (register email password' name' s))"
| r_addListing:
    "reachable s \<Longrightarrow>
     addListing draws title' email' address' price' thumbnail' metadata' s = Some (r, s') \<Longrightarrow>
     reachable s'"
| r_updateListing:
    "reachable s \<Longrightarrow>
     reachable (snd (updateListing listingId' title' address' thumbnail' price' metadata' s))"
| r_removeListing: "reachable s \<Longrightarrow> reachable (snd (removeListing listingId' s))"
| r_publishListing:
    "reachable s \<Longrightarrow> reachable (snd (publishListing now listingId' availability' s))"
| r_unpublishListing: "reachable s \<Longrightarrow> reachable (snd (unpublishListing listingId' s))"
| r_leaveListingReview:
    "reachable s \<Longrightarrow> reachable (snd (leaveListingReview email' listingId' bookingId review s))"
| r_makeNewBooking:
    "reachable s \<Longrightarrow>
     makeNewBooking draws owner' dateRange' totalPrice' listingId' s = Some (r', s') \<Longrightarrow>
     reachable s'"
| r_removeBooking: "reachable s \<Longrightarrow> reachable (snd (removeBooking bookingId s))"
| r_acceptBooking: "reachable s \<Longrightarrow> reachable (snd (acceptBooking owner' bookingId s))"
| r_declineBooking: "reachable s \<Longrightarrow> reachable (snd (declineBooking owner' bookingId s))"

text \<open>
  One call of an exported function that can change the state, from the state before to the
  state after. The label is the id that a resolving \<open>makeNewBooking\<close> allocated, and \<open>None\<close>
  for every other call.
\<close>

inductive step :: "state \<Rightarrow> string option \<Rightarrow> state \<Rightarrow> bool" where
  s_reset: "step s None (mem (snd (reset e \<lparr> mem = s, store = st \<rparr>)))"
| s_login: "step s None (snd (login email password' s))"
| s_logout: "step s None (snd (logout email' s))"
| s_register: "step s None (snd (register email password' name' s))"
| s_addListing:
    "addListing draws title' email' address' price' thumbnail' metadata' s = Some (r, s') \<Longrightarrow>
     step s None s'"
| s_updateListing:
    "step s None (snd (updateListing listingId' title' address' thumbnail' price' metadata' s))"
| s_removeListing: "step s None (snd (removeListing listingId' s))"
| s_publishListing: "step s None (snd (publishListing now listingId' availability' s))"
| s_unpublishListing: "step s None (snd (unpublishListing listingId' s))"
| s_leaveListingReview:
    "step s None (snd (leaveListingReview email' listingId' bookingId review s))"
| s_makeNewBooking:
    "makeNewBooking draws owner' dateRange' totalPrice' listingId' s = Some (r', s') \<Longrightarrow>
     step s (case r' of Inl err \<Rightarrow> None | Inr i \<Rightarrow> Some i) s'"
| s_removeBooking: "step s None (snd (removeBooking bookingId s))"
| s_acceptBooking: "step s None (snd (acceptBooking owner' bookingId s))"
| s_declineBooking: "step s None (snd (declineBooking owner' bookingId s))"

text \<open>\<open>later bookingId s t\<close>: the state \<open>t\<close> comes from \<open>s\<close> by any number of such calls, none
  of which is a \<open>makeNewBooking\<close> that allocated the id \<open>bookingId\<close>.\<close>

inductive later :: "string \<Rightarrow> state \<Rightarrow> state \<Rightarrow> bool" where
  later_now: "later bookingId s s"
| later_call:
    "later bookingId s t \<Longrightarrow> step t lab u \<Longrightarrow> lab \<noteq> Some bookingId \<Longrightarrow> later bookingId s u"

section \<open>Predicates of the specification\<close>

text \<open>A terminal-state conflict is one of the two rejections that name the status the
  booking already has.\<close>

definition terminal_conflict :: "error \<Rightarrow> bool" where
  "terminal_conflict err =
     (err = InputError ''Booking has already been accepted''
      \<or> err = InputError ''Booking has already been declined'')"

text \<open>The caller owns the listing a booking refers to, and that listing is still there.\<close>

definition owns_listing_of :: "state \<Rightarrow> string \<Rightarrow> booking \<Rightarrow> bool" where
  "owns_listing_of s owner' b =
     (case obj_get (listings s) (listingId b) of
        Some l \<Rightarrow> listing.owner l = owner'
      | None \<Rightarrow> False)"

text \<open>What a listing keeps when the fields that the enumeration leaves out are blanked,
  and a user without the password; two states are alike for a bulk consumer when they
  agree on these and on the bookings.\<close>

definition hide_listing :: "listing \<Rightarrow> listing" where
  "hide_listing l =
     l\<lparr>metadata := JUndefined, availability := JUndefined, published := False, postedOn := None\<rparr>"

definition hide_user :: "user \<Rightarrow> user" where
  "hide_user u = u\<lparr>password := []\<rparr>"

definition same_public ::  "state \<Rightarrow> state \<Rightarrow> bool" where
  "same_public s t =
     (map (\<lambda>p. (fst p, hide_listing (snd p))) (listings s)
        = map (\<lambda>p. (fst p, hide_listing (snd p))) (listings t)
      \<and> map (\<lambda>p. (fst p, hide_user (snd p))) (users s)
        = map (\<lambda>p. (fst p, hide_user (snd p))) (users t)
      \<and> bookings s = bookings t)"

text \<open>Which write of a save is the first one, and whether it fails.\<close>

definition primary_fails :: "io \<Rightarrow> bool" where
  "primary_fails e = (if hasRedisCredentials e then redis_set_fails e else write_fails e)"

text \<open>The group of fields that publishing sets and unpublishing clears: the flag and the
  posting date go together, and an unpublished listing has no availability.\<close>

definition publish_consistent :: "listing \<Rightarrow> bool" where
  "publish_consistent l =
     ((published l \<longleftrightarrow> postedOn l \<noteq> None) \<and> (\<not> published l \<longrightarrow> availability l = JArray []))"

definition listings_consistent :: "state \<Rightarrow> bool" where
  "listings_consistent s = list_all (\<lambda>p. publish_consistent (snd p)) (listings s)"

section \<open>Example states\<close>

definition loft :: listing where
  "loft = newListingPayload (JString ''Loft'') ''a@x.com'' (JString ''1 Rd'') (Some (Num 100))
            (JString ''t.png'') (JObject [])"

definition barn :: listing where
  "barn = newListingPayload (JString ''Barn'') ''b@x.com'' (JString ''2 Rd'') (Some (Num 80))
            (JString ''u.png'') (JObject [])"

definition loft_state :: state where
  "loft_state = \<lparr> users = [], listings = [(''549999999'', loft)], bookings = [] \<rparr>"

definition two_listings :: state where
  "two_listings =
     \<lparr> users = [], listings = [(''549999999'', loft), (''324999999'', barn)], bookings = [] \<rparr>"

definition loft_published :: listing where
  "loft_published =
     loft\<lparr>availability := JArray [JString ''2024-01-01''], published := True,
          postedOn := Some ''2024-01-01T00:00:00.000Z''\<rparr>"

definition stay :: booking where
  "stay = newBookingPayload ''c@x.com'' (JString ''1-2 Jan'') (Some (Num 200)) ''549999999''"

definition booked_state :: state where
  "booked_state =
     \<lparr> users = [],
       listings = [(''549999999'', loft_published)],
       bookings = [(''324999999'', stay\<lparr>status := ''accepted''\<rparr>)] \<rparr>"

text \<open>Environments of a save and an empty pair of stores.\<close>

definition redis_down :: io where
  "redis_down = \<lparr> hasRedisCredentials = True, redis_set_fails = True, write_fails = False,
                  fallback_write_fails = False \<rparr>"

definition all_down :: io where
  "all_down = \<lparr> hasRedisCredentials = True, redis_set_fails = True, write_fails = True,
                fallback_write_fails = True \<rparr>"

definition file_only :: io where
  "file_only = \<lparr> hasRedisCredentials = False, redis_set_fails = False, write_fails = False,
                 fallback_write_fails = False \<rparr>"

definition fresh_store :: storage where
  "fresh_store = \<lparr> redis_data = None, database_file = None \<rparr>"

text \<open>Two states that differ in a password and in the fields of a listing that the
  enumeration leaves out.\<close>

definition ann_loft :: state where
  "ann_loft =
     \<lparr> users = [(''a@x.com'', \<lparr> name = ''Ann'', password = ''pw'', sessionActive = True \<rparr>)],
       listings = [(''549999999'', loft)],
       bookings = [(''324999999'', stay)] \<rparr>"

definition ann_loft_other :: state where
  "ann_loft_other =
     \<lparr> users = [(''a@x.com'', \<lparr> name = ''Ann'', password = ''secret'', sessionActive = True \<rparr>)],
       listings = [(''549999999'',
                    loft_published\<lparr>metadata := JObject [(''beds'', JNumber (Num 2))]\<rparr>)],
       bookings = [(''324999999'', stay)] \<rparr>"

section \<open>Basic facts\<close>

subsection \<open>Objects\<close>

lemma obj_get_obj_set:
  "obj_get (obj_set k v obj) k' = (if k' = k then Some v else obj_get obj k')"
  by (induction obj) (auto simp: obj_get_def)

lemma set_obj_set:
  "p \<in> set (obj_set k v obj) \<Longrightarrow> p = (k, v) \<or> p \<in> set obj"
  by (induction obj) (auto split: if_splits)

lemma obj_get_in_set: "obj_get obj k = Some v \<Longrightarrow> (k, v) \<in> set obj"
  by (simp add: obj_get_def map_of_SomeD)

lemma obj_get_has_key: "has_key k obj = (obj_get obj k \<noteq> None)"
  by (simp add: has_key_def obj_get_def map_of_eq_None_iff)

lemma obj_delete_absent: "\<not> has_key k obj \<Longrightarrow> obj_delete k obj = obj"
  by (induction obj) (auto simp: has_key_def obj_delete_def)

lemma obj_get_obj_delete:
  "obj_get (obj_delete k obj) k' = (if k' = k then None else obj_get obj k')"
  by (induction obj) (auto simp: obj_get_def obj_delete_def)

lemma obj_delete_twice: "obj_delete k (obj_delete k obj) = obj_delete k obj"
  by (simp add: obj_delete_def)

lemma set_Object_keys: "set (Object_keys obj) = set (map fst obj)"
  by (auto simp: Object_keys_def)

lemma Array_find_None: "(Array_find P xs = None) = (\<forall>x \<in> set xs. \<not> P x)"
  by (auto simp: Array_find_def find_None_iff)

lemma not_your_listing_iff: "not_your_listing s owner' b = (\<not> owns_listing_of s owner' b)"
proof (cases "obj_get (listings s) (listingId b)")
  case None
  then show ?thesis
    by (auto simp: not_your_listing_def owns_listing_of_def Array_find_None)
next
  case (Some l)
  then have "listingId b \<in> set (Object_keys (listings s))"
    using obj_get_has_key[of "listingId b" "listings s"]
    by (simp add: set_Object_keys has_key_def)
  with Some show ?thesis
    by (auto simp: not_your_listing_def owns_listing_of_def Array_find_None)
qed

subsection \<open>Identifiers\<close>

lemma includes_number_in_strings:
  "Array_includes (map JString ks) (JNumber n) = False"
  by (induction ks) (simp_all add: Array_includes_def)

lemma generateId_first_draw:
  "generateId ks mx (u # us) = Some (Number_toString (randNum mx u))"
  by (cases us) (simp_all add: generateId_def includes_number_in_strings)

lemma newListingId_draw:
  "newListingId s (u # us) = Some (Number_toString (randNum 999999999 u))"
  by (simp add: newListingId_def generateId_first_draw)

lemma newBookingId_draw:
  "newBookingId s (u # us) = Some (Number_toString (randNum 999999999 u))"
  by (simp add: newBookingId_def generateId_first_draw)

text \<open>With at least one draw the two operations that allocate an id return.\<close>

lemma addListing_returns:
  "\<exists>r s'. addListing (u # us) t e a p th m s = Some (r, s')"
  by (simp add: addListing_def resourceLock_def newListingId_draw)

lemma makeNewBooking_returns:
  "\<exists>r s'. makeNewBooking (u # us) ow d tp lid s = Some (r, s')"
  by (simp add: makeNewBooking_def resourceLock_def newBookingId_draw split: option.splits)

lemma randNum_half: "randNum 999999999 (1 / 2) = 549999999"
  by (simp add: randNum_def Math_round_def Math_floor_def)

lemma randNum_quarter: "randNum 999999999 (1 / 4) = 324999999"
  by (simp add: randNum_def Math_round_def Math_floor_def)

lemma digits10_numeral:
  "digits10 (numeral k) =
     (if numeral k < (10::nat) then [''0123456789'' ! numeral k]
      else digits10 (numeral k div 10) @ [''0123456789'' ! (numeral k mod 10)])"
  by (rule digits10.simps)

lemma toString_549999999: "Number_toString 549999999 = ''549999999''"
  by (simp add: Number_toString_def digits10_numeral)

lemma toString_324999999: "Number_toString 324999999 = ''324999999''"
  by (simp add: Number_toString_def digits10_numeral)

lemma keys_one: "Object_keys [(''549999999'', x)] = [''549999999'']"
  by (simp add: Object_keys_def is_array_index_def is_digit_def digits_val_def digit_val_def)

subsection \<open>Example states are reachable\<close>

lemma add_loft:
  "addListing [1 / 2] (JString ''Loft'') ''a@x.com'' (JString ''1 Rd'') (Some (Num 100))
     (JString ''t.png'') (JObject []) empty_state
   = Some (Inr ''549999999'', loft_state)"
  by (simp add: addListing_def resourceLock_def title_taken_def Array_find_def Object_keys_def
      newListingId_draw randNum_half toString_549999999 empty_state_def loft_state_def loft_def)

lemma add_barn:
  "addListing [1 / 4] (JString ''Barn'') ''b@x.com'' (JString ''2 Rd'') (Some (Num 80))
     (JString ''u.png'') (JObject []) loft_state
   = Some (Inr ''324999999'', two_listings)"
  by (simp add: addListing_def resourceLock_def title_taken_def Array_find_def keys_one
      obj_get_def newListingId_draw randNum_quarter toString_324999999 loft_state_def
      two_listings_def loft_def barn_def newListingPayload_def)

lemma loft_state_reachable: "reachable loft_state"
  using r_addListing [OF r_init add_loft] .

lemma two_listings_reachable: "reachable two_listings"
  using r_addListing [OF loft_state_reachable add_barn] .

lemma publish_loft:
  "publishListing ''2024-01-01T00:00:00.000Z'' ''549999999'' (JArray [JString ''2024-01-01''])
     loft_state
   = (Inr (), loft_state\<lparr>listings := [(''549999999'', loft_published)]\<rparr>)"
  by (simp add: publishListing_def resourceLock_def obj_get_def loft_state_def loft_def
      loft_published_def newListingPayload_def)

lemma book_loft:
  "makeNewBooking [1 / 4] ''c@x.com'' (JString ''1-2 Jan'') (Some (Num 200)) ''549999999''
     (loft_state\<lparr>listings := [(''549999999'', loft_published)]\<rparr>)
   = Some (Inr ''324999999'',
           loft_state\<lparr>listings := [(''549999999'', loft_published)],
                       bookings := [(''324999999'', stay)]\<rparr>)"
  by (simp add: makeNewBooking_def resourceLock_def obj_get_def loft_state_def loft_def
      loft_published_def newListingPayload_def newBookingId_draw randNum_quarter
      toString_324999999 stay_def)

lemma accept_stay:
  "acceptBooking ''a@x.com'' ''324999999''
     (loft_state\<lparr>listings := [(''549999999'', loft_published)],
                 bookings := [(''324999999'', stay)]\<rparr>)
   = (Inr (), booked_state)"
  by (simp add: acceptBooking_def resourceLock_def obj_get_def loft_state_def
      not_your_listing_iff owns_listing_of_def booked_state_def stay_def newBookingPayload_def
      loft_published_def loft_def newListingPayload_def)

lemma booked_state_reachable: "reachable booked_state"
proof -
  have "reachable (loft_state\<lparr>listings := [(''549999999'', loft_published)]\<rparr>)"
    using r_publishListing [OF loft_state_reachable,
        of "''2024-01-01T00:00:00.000Z''" "''549999999''" "JArray [JString ''2024-01-01'']"]
    by (simp add: publish_loft)
  then have "reachable (loft_state\<lparr>listings := [(''549999999'', loft_published)],
                                   bookings := [(''324999999'', stay)]\<rparr>)"
    using book_loft by (rule r_makeNewBooking)
  then show ?thesis
    using r_acceptBooking [of _ "''a@x.com''" "''324999999''"] by (fastforce simp: accept_stay)
qed

subsection \<open>Titles\<close>

lemma title_taken_iff:
  "title_taken s t =
     (\<exists>k l. obj_get (listings s) k = Some l \<and> strict_eq (title l) t)"
proof -
  have "\<And>k. k \<in> set (Object_keys (listings s)) \<longleftrightarrow> obj_get (listings s) k \<noteq> None"
    using obj_get_has_key[of _ "listings s"] by (simp add: set_Object_keys has_key_def)
  then show ?thesis
    by (fastforce simp: title_taken_def Array_find_None split: option.splits)
qed

lemma addListing_duplicate_title:
  assumes "obj_get (listings s) k = Some l" and "strict_eq (title l) t" and "t \<noteq> JUndefined"
  shows "addListing draws t email a p th m s
           = Some (Inl (InputError ''A listing with this title already exists''), s)"
proof -
  have "title_taken s t" using assms by (auto simp: title_taken_iff)
  then show ?thesis using assms(3) by (simp add: addListing_def resourceLock_def)
qed

text \<open>Two calls of \<open>addListing\<close> with the same title, one after the other: when the first
  resolves, the second rejects.\<close>

lemma addListing_then_same_title:
  assumes "addListing draws t e a p th m s = Some (Inr i, s')" and "strict_eq t t"
  shows "addListing draws2 t e2 a2 p2 th2 m2 s'
           = Some (Inl (InputError ''A listing with this title already exists''), s')"
proof -
  from assms(1) have t: "t \<noteq> JUndefined"
    and s': "obj_get (listings s') i = Some (newListingPayload t e a p th m)"
    by (auto simp: addListing_def resourceLock_def obj_get_obj_set
        split: if_splits option.splits)
  have eq: "strict_eq (title (newListingPayload t e a p th m)) t"
    using assms(2) by (simp add: newListingPayload_def)
  show ?thesis by (rule addListing_duplicate_title [OF s' eq t])
qed

section \<open>Identifier allocation\<close>

text \<open>
  Claim C1: the identifier allocator never returns an id that is already a key of the
  collection, so the ids of a sequence of creations are pairwise distinct.

  The loop of \<open>generateId\<close> tests \<^verbatim>\<open>currentList.includes(R)\<close> with the number \<open>R\<close> against the
  strings of \<open>Object.keys\<close>; \<open>includes\<close> never finds a number among strings
  (\<open>includes_number_in_strings\<close>), so the first draw is returned as it is
  (\<open>generateId_first_draw\<close>). With the id \<open>549999999\<close> present and \<open>Math.random()\<close> giving
  \<open>0.5\<close>, \<open>generateId\<close> returns \<open>549999999\<close> again; two calls of \<open>addListing\<close> with that draw
  resolve with the same id, and the second listing replaces the first.
\<close>

theorem generateId_returns_existing_id:
  "generateId [''549999999''] 999999999 [1 / 2] = Some ''549999999''
   \<and> addListing [1 / 2] (JString ''Loft'') ''a@x.com'' (JString ''1 Rd'') (Some (Num 100))
         (JString ''t.png'') (JObject []) empty_state
       = Some (Inr ''549999999'', loft_state)
   \<and> addListing [1 / 2] (JString ''Barn'') ''b@x.com'' (JString ''2 Rd'') (Some (Num 80))
         (JString ''u.png'') (JObject []) loft_state
       = Some (Inr ''549999999'', loft_state\<lparr>listings := [(''549999999'', barn)]\<rparr>)"
proof (intro conjI)
  show "generateId [''549999999''] 999999999 [1 / 2] = Some ''549999999''"
    by (simp add: generateId_first_draw randNum_half toString_549999999)
  show "addListing [1 / 2] (JString ''Loft'') ''a@x.com'' (JString ''1 Rd'') (Some (Num 100))
         (JString ''t.png'') (JObject []) empty_state
       = Some (Inr ''549999999'', loft_state)"
    by (rule add_loft)
  show "addListing [1 / 2] (JString ''Barn'') ''b@x.com'' (JString ''2 Rd'') (Some (Num 80))
         (JString ''u.png'') (JObject []) loft_state
       = Some (Inr ''549999999'', loft_state\<lparr>listings := [(''549999999'', barn)]\<rparr>)"
    by (simp add: addListing_def resourceLock_def title_taken_def Array_find_def keys_one
      obj_get_def newListingId_draw randNum_half toString_549999999 loft_state_def
      loft_def barn_def newListingPayload_def)
qed

section \<open>Listing titles\<close>

text \<open>
  Claim C2: listing titles are pairwise distinct in every reachable state; \<open>addListing\<close>
  with a title already in use rejects without allocating an id or changing the state, and
  no other operation, \<open>updateListing\<close> in particular, produces two listings with the same
  title.

  \<open>addListing\<close> does reject (\<open>addListing_duplicate_title\<close>, for any list of draws, the empty
  one included). \<open>updateListing\<close> assigns the new title without looking at the other
  listings: in the reachable state with the listings \<open>Loft\<close> and \<open>Barn\<close>, renaming the second
  to \<open>Loft\<close> resolves and leaves two listings titled \<open>Loft\<close>.
\<close>

theorem updateListing_duplicates_title:
  "reachable two_listings
   \<and> updateListing ''324999999'' (JString ''Loft'') JUndefined JUndefined None JUndefined
        two_listings
     = (Inr (), two_listings\<lparr>listings :=
                   [(''549999999'', loft), (''324999999'', barn\<lparr>title := JString ''Loft''\<rparr>)]\<rparr>)
   \<and> title loft = JString ''Loft''
   \<and> title (barn\<lparr>title := JString ''Loft''\<rparr>) = JString ''Loft''"
proof (intro conjI)
  show "reachable two_listings" by (rule two_listings_reachable)
qed (simp_all add: updateListing_def resourceLock_def seq_def if_then_def
      assign_listing_def resolve_def obj_get_def two_listings_def loft_def newListingPayload_def)

section \<open>Booking status\<close>

text \<open>The calls of \<open>step\<close> are those of \<open>reachable\<close>.\<close>

lemma reachable_step: "reachable s \<Longrightarrow> step s lab s' \<Longrightarrow> reachable s'"
  by (erule step.cases) (auto intro: reachable.intros)

lemma reachable_by_steps:
  "reachable s \<Longrightarrow> s = empty_state \<or> (\<exists>t lab. reachable t \<and> step t lab s)"
  by (erule reachable.cases) (blast intro: step.intros)+

text \<open>No call but \<open>makeNewBooking\<close>, \<open>acceptBooking\<close>, \<open>declineBooking\<close>, \<open>removeBooking\<close> and \<open>reset\<close>
  touches \<open>bookings\<close>; a call that does not allocate the id of a booking leaves that booking
  as it is or removes it, and does not bring a removed one back.\<close>

lemma assign_listing_bookings: "bookings (snd (assign_listing k f s)) = bookings s"
  by (simp add: assign_listing_def split: option.splits)

lemma seq_bookings:
  assumes "\<And>t. bookings (snd (f t)) = bookings t" and "\<And>t. bookings (snd (g t)) = bookings t"
  shows "bookings (snd (seq f g s)) = bookings s"
proof (cases "f s")
  case (Pair r t)
  with assms(1)[of s] have "bookings t = bookings s" by simp
  with Pair assms(2)[of t] show ?thesis by (cases r) (simp_all add: seq_def)
qed

lemma if_then_bookings:
  assumes "\<And>t. bookings (snd (f t)) = bookings t"
  shows "bookings (snd (if_then c f s)) = bookings s"
  using assms by (simp add: if_then_def)

lemma updateListing_bookings: "bookings (snd (updateListing k t a th p m s)) = bookings s"
  unfolding updateListing_def resourceLock_def
  by (intro seq_bookings if_then_bookings assign_listing_bookings) (simp add: resolve_def)

lemma step_keeps_terminal_booking:
  assumes "step s lab s'" and "lab \<noteq> Some bid"
    and "obj_get (bookings s) bid = Some b"
    and "status b = ''accepted'' \<or> status b = ''declined''"
  shows "obj_get (bookings s') bid = Some b \<or> obj_get (bookings s') bid = None"
  using assms
proof (induction rule: step.induct)
  case (s_reset s e st)
  then show ?case by (auto simp: reset_def obj_get_def split: prod.splits sum.splits)
next
  case (s_login s email password')
  then show ?case by (auto simp: login_def resourceLock_def split: option.splits)
next
  case (s_logout s email')
  then show ?case by (auto simp: logout_def resourceLock_def split: option.splits)
next
  case (s_register s email password' name')
  then show ?case by (auto simp: register_def resourceLock_def)
next
  case (s_addListing draws title' email' address' price' thumbnail' metadata' s r s')
  then show ?case
    by (auto simp: addListing_def resourceLock_def split: if_splits option.splits)
next
  case (s_updateListing s listingId' title' address' thumbnail' price' metadata')
  then show ?case by (simp add: updateListing_bookings)
next
  case (s_removeListing s listingId')
  then show ?case by (simp add: removeListing_def resourceLock_def)
next
  case (s_publishListing s now listingId' availability')
  then show ?case by (auto simp: publishListing_def resourceLock_def split: option.splits)
next
  case (s_unpublishListing s listingId')
  then show ?case by (auto simp: unpublishListing_def resourceLock_def split: option.splits)
next
  case (s_leaveListingReview s email' listingId' bookingId review)
  then show ?case
    by (auto simp: leaveListingReview_def resourceLock_def split: option.splits)
next
  case (s_makeNewBooking draws owner' dateRange' totalPrice' listingId' s r' s')
  then show ?case
    by (auto simp: makeNewBooking_def resourceLock_def obj_get_obj_set
        split: if_splits option.splits)
next
  case (s_removeBooking s bookingId)
  then show ?case by (simp add: removeBooking_def resourceLock_def obj_get_obj_delete)
next
  case (s_acceptBooking s owner' bookingId)
  then show ?case
    by (auto simp: acceptBooking_def resourceLock_def obj_get_obj_set split: option.splits)
next
  case (s_declineBooking s owner' bookingId)
  then show ?case
    by (auto simp: declineBooking_def resourceLock_def obj_get_obj_set split: option.splits)
qed

lemma step_keeps_removed_booking:
  assumes "step s lab s'" and "lab \<noteq> Some bid" and "obj_get (bookings s) bid = None"
  shows "obj_get (bookings s') bid = None"
  using assms
proof (induction rule: step.induct)
  case (s_reset s e st)
  then show ?case by (auto simp: reset_def obj_get_def split: prod.splits sum.splits)
next
  case (s_login s email password')
  then show ?case by (auto simp: login_def resourceLock_def split: option.splits)
next
  case (s_logout s email')
  then show ?case by (auto simp: logout_def resourceLock_def split: option.splits)
next
  case (s_register s email password' name')
  then show ?case by (auto simp: register_def resourceLock_def)
next
  case (s_addListing draws title' email' address' price' thumbnail' metadata' s r s')
  then show ?case
    by (auto simp: addListing_def resourceLock_def split: if_splits option.splits)
next
  case (s_updateListing s listingId' title' address' thumbnail' price' metadata')
  then show ?case by (simp add: updateListing_bookings)
next
  case (s_removeListing s listingId')
  then show ?case by (simp add: removeListing_def resourceLock_def)
next
  case (s_publishListing s now listingId' availability')
  then show ?case by (auto simp: publishListing_def resourceLock_def split: option.splits)
next
  case (s_unpublishListing s listingId')
  then show ?case by (auto simp: unpublishListing_def resourceLock_def split: option.splits)
next
  case (s_leaveListingReview s email' listingId' bookingId review)
  then show ?case
    by (auto simp: leaveListingReview_def resourceLock_def split: option.splits)
next
  case (s_makeNewBooking draws owner' dateRange' totalPrice' listingId' s r' s')
  then show ?case
    by (auto simp: makeNewBooking_def resourceLock_def obj_get_obj_set
        split: if_splits option.splits)
next
  case (s_removeBooking s bookingId)
  then show ?case by (simp add: removeBooking_def resourceLock_def obj_get_obj_delete)
next
  case (s_acceptBooking s owner' bookingId)
  then show ?case
    by (auto simp: acceptBooking_def resourceLock_def obj_get_obj_set split: option.splits)
next
  case (s_declineBooking s owner' bookingId)
  then show ?case
    by (auto simp: declineBooking_def resourceLock_def obj_get_obj_set split: option.splits)
qed

lemma later_keeps_terminal_booking:
  assumes "later bid s s'"
    and "obj_get (bookings s) bid = Some b"
    and "status b = ''accepted'' \<or> status b = ''declined''"
  shows "obj_get (bookings s') bid = Some b \<or> obj_get (bookings s') bid = None"
  using assms
proof (induction rule: later.induct)
  case (later_now bookingId s)
  then show ?case by simp
next
  case (later_call bookingId s t lab u)
  then have "obj_get (bookings t) bookingId = Some b \<or> obj_get (bookings t) bookingId = None"
    by simp
  then show ?case
  proof
    assume "obj_get (bookings t) bookingId = Some b"
    from step_keeps_terminal_booking [OF later_call.hyps(2,3) this later_call.prems(2)]
    show ?thesis .
  next
    assume "obj_get (bookings t) bookingId = None"
    with later_call.hyps(2,3) show ?thesis
      by (simp add: step_keeps_removed_booking)
  qed
qed

text \<open>The calls left out by \<open>later\<close>: \<open>generateId\<close> can return an id in use, and then
  \<open>makeNewBooking\<close> stores the new pending booking in the place of the old one.\<close>

lemma collision_replaces_booking:
  "makeNewBooking [1 / 4] ''d@x.com'' (JString ''3-4 Jan'') (Some (Num 150)) ''549999999''
     booked_state
   = Some (Inr ''324999999'',
           booked_state\<lparr>bookings :=
             [(''324999999'',
               newBookingPayload ''d@x.com'' (JString ''3-4 Jan'') (Some (Num 150))
                 ''549999999'')]\<rparr>)"
  by (simp add: makeNewBooking_def resourceLock_def obj_get_def booked_state_def
      loft_published_def loft_def newListingPayload_def newBookingId_draw randNum_quarter
      toString_324999999)

text \<open>
  Claim C3, as stated: once a booking is \<open>accepted\<close> or \<open>declined\<close>, every later
  \<open>acceptBooking\<close> or \<open>declineBooking\<close> on it rejects with a terminal-state conflict and
  leaves the status and the rest of the state unchanged; the status of a booking never
  leaves a terminal state. The guard on the owner of the listing comes before the tests of
  the status: for a caller who does not own the listing of an accepted booking the
  rejection is the one about ownership, which is not a terminal-state conflict.
\<close>

theorem terminal_booking_wrong_owner:
  "obj_get (bookings booked_state) ''324999999'' = Some (stay\<lparr>status := ''accepted''\<rparr>)
   \<and> status (stay\<lparr>status := ''accepted''\<rparr>) = ''accepted''
   \<and> fst (acceptBooking ''b@x.com'' ''324999999'' booked_state)
       = Inl (InputError ''Cannot accept bookings for a listing that isn't yours'')
   \<and> \<not> terminal_conflict (InputError ''Cannot accept bookings for a listing that isn't yours'')"
  by (simp add: acceptBooking_def resourceLock_def obj_get_def booked_state_def
      not_your_listing_iff owns_listing_of_def loft_published_def loft_def newListingPayload_def
      stay_def newBookingPayload_def terminal_conflict_def)

text \<open>
  Claim C3, amended: let a booking be \<open>accepted\<close> or \<open>declined\<close>. After any number of calls of
  exported functions, the booking is still there, unchanged, or it has been removed; no
  call takes its status out of the terminal state. Every \<open>acceptBooking\<close> and
  \<open>declineBooking\<close> on its id then rejects and leaves the whole state as it was; while the
  booking is there, the rejection is a terminal-state conflict when the caller owns the
  listing the booking refers to, and the ownership error otherwise (also when that listing
  has been removed). Nothing is said of a \<open>makeNewBooking\<close> in between that is given the id
  of the booking.
\<close>

theorem terminal_booking_rejected:
  assumes "obj_get (bookings s) bookingId = Some b"
    and "status b = ''accepted'' \<or> status b = ''declined''"
    and "later bookingId s t"
  shows "(obj_get (bookings t) bookingId = Some b \<or> obj_get (bookings t) bookingId = None)
       \<and> snd (acceptBooking owner' bookingId t) = t
       \<and> snd (declineBooking owner' bookingId t) = t
       \<and> (\<exists>err. fst (acceptBooking owner' bookingId t) = Inl err)
       \<and> (\<exists>err. fst (declineBooking owner' bookingId t) = Inl err)
       \<and> (obj_get (bookings t) bookingId = Some b \<and> owns_listing_of t owner' b \<longrightarrow>
            (\<exists>err. fst (acceptBooking owner' bookingId t) = Inl err \<and> terminal_conflict err)
          \<and> (\<exists>err. fst (declineBooking owner' bookingId t) = Inl err \<and> terminal_conflict err))
       \<and> (obj_get (bookings t) bookingId = Some b \<and> \<not> owns_listing_of t owner' b \<longrightarrow>
            fst (acceptBooking owner' bookingId t)
              = Inl (InputError ''Cannot accept bookings for a listing that isn't yours'')
          \<and> fst (declineBooking owner' bookingId t)
              = Inl (InputError ''Cannot accept bookings for a listing that isn't yours''))"
proof -
  from later_keeps_terminal_booking [OF assms(3,1,2)]
  have "obj_get (bookings t) bookingId = Some b \<or> obj_get (bookings t) bookingId = None" .
  then show ?thesis
  proof
    assume "obj_get (bookings t) bookingId = Some b"
    with assms(2) show ?thesis
      by (auto simp: acceptBooking_def declineBooking_def resourceLock_def
          not_your_listing_iff terminal_conflict_def)
  next
    assume "obj_get (bookings t) bookingId = None"
    then show ?thesis
      by (simp add: acceptBooking_def declineBooking_def resourceLock_def)
  qed
qed

theorem terminal_booking_rejected_witness:
  "snd (acceptBooking ''a@x.com'' ''324999999'' booked_state) = booked_state
   \<and> snd (declineBooking ''a@x.com'' ''324999999'' booked_state) = booked_state
   \<and> fst (acceptBooking ''a@x.com'' ''324999999'' booked_state)
       = Inl (InputError ''Booking has already been accepted'')
   \<and> fst (declineBooking ''a@x.com'' ''324999999'' booked_state)
       = Inl (InputError ''Booking has already been accepted'')
   \<and> fst (declineBooking ''b@x.com'' ''324999999'' booked_state)
       = Inl (InputError ''Cannot accept bookings for a listing that isn't yours'')
   \<and> obj_get (bookings (snd (removeListing ''549999999'' booked_state))) ''324999999''
       = Some (stay\<lparr>status := ''accepted''\<rparr>)
   \<and> fst (acceptBooking ''a@x.com'' ''324999999''
            (snd (removeListing ''549999999'' booked_state)))
       = Inl (InputError ''Cannot accept bookings for a listing that isn't yours'')
   \<and> snd (acceptBooking ''a@x.com'' ''324999999''
            (snd (removeListing ''549999999'' booked_state)))
       = snd (removeListing ''549999999'' booked_state)"
proof -
  let ?b = "stay\<lparr>status := ''accepted''\<rparr>"
  let ?t = "snd (removeListing ''549999999'' booked_state)"
  have b: "obj_get (bookings booked_state) ''324999999'' = Some ?b"
    by (simp add: obj_get_def booked_state_def)
  have t: "status ?b = ''accepted'' \<or> status ?b = ''declined''"
    by simp
  have now: "later ''324999999'' booked_state booked_state"
    by (rule later_now)
  have after: "later ''324999999'' booked_state ?t"
    by (rule later_call [OF later_now s_removeListing]) simp
  have own: "owns_listing_of booked_state ''a@x.com'' ?b"
    by (simp add: owns_listing_of_def obj_get_def booked_state_def stay_def
        newBookingPayload_def loft_published_def loft_def newListingPayload_def)
  have other: "\<not> owns_listing_of booked_state ''b@x.com'' ?b"
    by (simp add: owns_listing_of_def obj_get_def booked_state_def stay_def
        newBookingPayload_def loft_published_def loft_def newListingPayload_def)
  have gone: "\<not> owns_listing_of ?t ''a@x.com'' ?b"
    by (simp add: owns_listing_of_def removeListing_def resourceLock_def obj_get_obj_delete
        stay_def newBookingPayload_def)
  have kept: "obj_get (bookings ?t) ''324999999'' = Some ?b"
    using b by (simp add: removeListing_def resourceLock_def)
  have acc: "fst (acceptBooking ''a@x.com'' ''324999999'' booked_state)
       = Inl (InputError ''Booking has already been accepted'')"
    using b own by (simp add: acceptBooking_def resourceLock_def not_your_listing_iff)
  have dec: "fst (declineBooking ''a@x.com'' ''324999999'' booked_state)
       = Inl (InputError ''Booking has already been accepted'')"
    using b own by (simp add: declineBooking_def resourceLock_def not_your_listing_iff)
  show ?thesis
    using terminal_booking_rejected [OF b t now, of "''a@x.com''"]
      terminal_booking_rejected [OF b t now, of "''b@x.com''"]
      terminal_booking_rejected [OF b t after, of "''a@x.com''"]
      b own other gone kept acc dec
    by simp
qed

section \<open>Publishing\<close>

text \<open>
  Claim C4: for a listing that is there and unpublished, \<open>publishListing\<close> with a defined
  availability resolves and leaves the listing with \<open>published = true\<close>, the posting date
  set, and the availability given; a second \<open>publishListing\<close> right after it rejects. For a
  listing that is there and published, \<open>unpublishListing\<close> resolves and leaves
  \<open>published = false\<close>, \<open>postedOn = null\<close> and \<open>availability = []\<close>.
\<close>

theorem publish_unpublish:
  "(obj_get (listings s) listingId' = Some l \<and> \<not> published l \<and> availability' \<noteq> JUndefined \<longrightarrow>
      fst (publishListing now listingId' availability' s) = Inr ()
      \<and> obj_get (listings (snd (publishListing now listingId' availability' s))) listingId'
          = Some (l\<lparr>availability := availability', published := True, postedOn := Some now\<rparr>)
      \<and> (\<exists>err. fst (publishListing now2 listingId' availability2
                      (snd (publishListing now listingId' availability' s))) = Inl err)
      \<and> (availability2 \<noteq> JUndefined \<longrightarrow>
            fst (publishListing now2 listingId' availability2
                   (snd (publishListing now listingId' availability' s)))
              = Inl (InputError ''This listing is already published'')))
   \<and> (obj_get (listings s) listingId' = Some l \<and> published l \<longrightarrow>
      fst (unpublishListing listingId' s) = Inr ()
      \<and> obj_get (listings (snd (unpublishListing listingId' s))) listingId'
          = Some (l\<lparr>availability := JArray [], published := False, postedOn := None\<rparr>))"
  by (simp add: publishListing_def unpublishListing_def resourceLock_def obj_get_obj_set)

theorem publish_unpublish_witness:
  "fst (publishListing ''2024-01-01T00:00:00.000Z'' ''549999999''
          (JArray [JString ''2024-01-01'']) loft_state) = Inr ()
   \<and> obj_get (listings (snd (publishListing ''2024-01-01T00:00:00.000Z'' ''549999999''
                                (JArray [JString ''2024-01-01'']) loft_state))) ''549999999''
       = Some loft_published
   \<and> fst (publishListing ''2024-01-02T00:00:00.000Z'' ''549999999'' (JArray [])
            (snd (publishListing ''2024-01-01T00:00:00.000Z'' ''549999999''
                    (JArray [JString ''2024-01-01'']) loft_state)))
       = Inl (InputError ''This listing is already published'')
   \<and> fst (unpublishListing ''549999999'' booked_state) = Inr ()
   \<and> obj_get (listings (snd (unpublishListing ''549999999'' booked_state))) ''549999999''
       = Some loft"
proof -
  have a: "obj_get (listings loft_state) ''549999999'' = Some loft \<and> \<not> published loft
           \<and> JArray [JString ''2024-01-01''] \<noteq> JUndefined"
    by (simp add: obj_get_def loft_state_def loft_def newListingPayload_def)
  have b: "obj_get (listings booked_state) ''549999999'' = Some loft_published
           \<and> published loft_published"
    by (simp add: obj_get_def booked_state_def loft_published_def)
  have c: "loft\<lparr>availability := JArray [JString ''2024-01-01''], published := True,
                 postedOn := Some ''2024-01-01T00:00:00.000Z''\<rparr> = loft_published"
    by (simp add: loft_published_def)
  have d: "loft_published\<lparr>availability := JArray [], published := False, postedOn := None\<rparr>
           = loft"
    by (simp add: loft_published_def loft_def newListingPayload_def)
  show ?thesis
    using a b
      publish_unpublish [of loft_state "''549999999''" loft "JArray [JString ''2024-01-01'']"
        "''2024-01-01T00:00:00.000Z''" "''2024-01-02T00:00:00.000Z''" "JArray []"]
      publish_unpublish [of booked_state "''549999999''" loft_published]
    by (simp add: c d)
qed

section \<open>Published flag, availability and posting date\<close>

lemma listings_consistent_obj_set:
  "listings_consistent s \<Longrightarrow> publish_consistent v \<Longrightarrow>
   listings_consistent (s\<lparr>listings := obj_set k v (listings s)\<rparr>)"
  using set_obj_set[of _ k v "listings s"]
  by (fastforce simp: listings_consistent_def list_all_iff)

lemma listings_consistent_get:
  "listings_consistent s \<Longrightarrow> obj_get (listings s) k = Some l \<Longrightarrow> publish_consistent l"
  using obj_get_in_set[of "listings s" k l]
  by (fastforce simp: listings_consistent_def list_all_iff)

lemma assign_listing_consistent:
  assumes "listings_consistent s"
    and "\<And>l. publish_consistent l \<Longrightarrow> publish_consistent (f l)"
  shows "listings_consistent (snd (assign_listing k f s))"
proof (cases "obj_get (listings s) k")
  case None
  with assms(1) show ?thesis by (simp add: assign_listing_def)
next
  case (Some l)
  with assms(1) have "publish_consistent (f l)"
    by (intro assms(2)) (rule listings_consistent_get)
  with Some assms(1) show ?thesis
    by (simp add: assign_listing_def listings_consistent_obj_set)
qed

lemma seq_consistent:
  assumes "listings_consistent s"
    and "\<And>t. listings_consistent t \<Longrightarrow> listings_consistent (snd (f t))"
    and "\<And>t. listings_consistent t \<Longrightarrow> listings_consistent (snd (g t))"
  shows "listings_consistent (snd (seq f g s))"
proof (cases "f s")
  case (Pair r t)
  with assms(2)[OF assms(1)] have t: "listings_consistent t" by simp
  show ?thesis
  proof (cases r)
    case (Inl err)
    with Pair t show ?thesis by (simp add: seq_def)
  next
    case (Inr u)
    with Pair assms(3)[OF t] show ?thesis by (simp add: seq_def)
  qed
qed

lemma if_then_consistent:
  assumes "listings_consistent s"
    and "listings_consistent s \<Longrightarrow> listings_consistent (snd (f s))"
  shows "listings_consistent (snd (if_then c f s))"
  using assms by (simp add: if_then_def)

lemma updateListing_consistent:
  assumes "listings_consistent s"
  shows "listings_consistent (snd (updateListing k t a th p m s))"
  unfolding updateListing_def resourceLock_def
  by (intro seq_consistent if_then_consistent assign_listing_consistent assms)
     (simp_all add: publish_consistent_def resolve_def)

lemma publish_consistent_payload:
  "publish_consistent (newListingPayload t e a p th m)"
  by (simp add: publish_consistent_def newListingPayload_def)

lemma reachable_consistent: "reachable s \<Longrightarrow> listings_consistent s"
proof (induction rule: reachable.induct)
  case r_init
  show ?case by (simp add: listings_consistent_def empty_state_def)
next
  case (r_reset s e st)
  then show ?case
    by (auto simp: reset_def listings_consistent_def split: prod.splits sum.splits)
next
  case (r_login s email password')
  then show ?case
    by (auto simp: login_def resourceLock_def listings_consistent_def split: option.splits)
next
  case (r_logout s email')
  then show ?case
    by (auto simp: logout_def resourceLock_def listings_consistent_def split: option.splits)
next
  case (r_register s email password' name')
  then show ?case
    by (auto simp: register_def resourceLock_def listings_consistent_def)
next
  case (r_addListing s draws title' email' address' price' thumbnail' metadata' r s')
  from r_addListing.hyps(2) r_addListing.IH show ?case
    by (auto simp: addListing_def resourceLock_def listings_consistent_obj_set
        publish_consistent_payload split: if_splits option.splits)
next
  case (r_updateListing s listingId' title' address' thumbnail' price' metadata')
  then show ?case by (simp add: updateListing_consistent)
next
  case (r_removeListing s listingId')
  then show ?case
    by (auto simp: removeListing_def resourceLock_def listings_consistent_def obj_delete_def
        list_all_iff)
next
  case (r_publishListing s now listingId' availability')
  then show ?case
    by (auto simp: publishListing_def resourceLock_def listings_consistent_obj_set
        publish_consistent_def split: option.splits)
next
  case (r_unpublishListing s listingId')
  then show ?case
    by (auto simp: unpublishListing_def resourceLock_def listings_consistent_obj_set
        publish_consistent_def split: option.splits)
next
  case (r_leaveListingReview s email' listingId' bookingId review)
  then have ok: "listings_consistent s" by simp
  have "publish_consistent (l\<lparr>reviews := reviews l @ [review]\<rparr>)"
    if "obj_get (listings s) listingId' = Some l" for l
    using listings_consistent_get [OF ok that] by (simp add: publish_consistent_def)
  with ok show ?case
    by (simp add: leaveListingReview_def resourceLock_def listings_consistent_obj_set
        split: option.splits)
next
  case (r_makeNewBooking s draws owner' dateRange' totalPrice' listingId' r' s')
  from r_makeNewBooking.hyps(2) r_makeNewBooking.IH show ?case
    by (auto simp: makeNewBooking_def resourceLock_def listings_consistent_def
        split: if_splits option.splits)
next
  case (r_removeBooking s bookingId)
  then show ?case
    by (auto simp: removeBooking_def resourceLock_def listings_consistent_def)
next
  case (r_acceptBooking s owner' bookingId)
  then show ?case
    by (auto simp: acceptBooking_def resourceLock_def listings_consistent_def
        split: option.splits)
next
  case (r_declineBooking s owner' bookingId)
  then show ?case
    by (auto simp: declineBooking_def resourceLock_def listings_consistent_def
        split: option.splits)
qed

text \<open>
  Claim C5, as stated: in every reachable state, \<open>published\<close> holds if and only if the
  availability is not empty, if and only if \<open>postedOn\<close> is not null. \<open>publishListing\<close> only
  asks for an availability that is not \<open>undefined\<close>: publishing with \<^verbatim>\<open>[]\<close> gives a published
  listing whose availability is empty.
\<close>

theorem published_with_empty_availability:
  "reachable (snd (publishListing ''2024-01-01T00:00:00.000Z'' ''549999999'' (JArray [])
                     loft_state))
   \<and> obj_get (listings (snd (publishListing ''2024-01-01T00:00:00.000Z'' ''549999999''
                                (JArray []) loft_state))) ''549999999''
       = Some (loft\<lparr>published := True, postedOn := Some ''2024-01-01T00:00:00.000Z''\<rparr>)
   \<and> published (loft\<lparr>published := True, postedOn := Some ''2024-01-01T00:00:00.000Z''\<rparr>)
   \<and> availability (loft\<lparr>published := True, postedOn := Some ''2024-01-01T00:00:00.000Z''\<rparr>)
       = JArray []"
proof (intro conjI)
  show "reachable (snd (publishListing ''2024-01-01T00:00:00.000Z'' ''549999999'' (JArray [])
                     loft_state))"
    using loft_state_reachable by (rule r_publishListing)
qed (simp_all add: publishListing_def resourceLock_def obj_get_def loft_state_def loft_def
      newListingPayload_def)

text \<open>
  Claim C5, amended: in every state reachable from three empty collections, each listing
  has \<open>published = true\<close> if and only if \<open>postedOn\<close> is not null, and a listing whose
  availability is not \<^verbatim>\<open>[]\<close> is published.
\<close>

theorem published_iff_posted:
  assumes "reachable s" and "obj_get (listings s) k = Some l"
  shows "(published l \<longleftrightarrow> postedOn l \<noteq> None) \<and> (availability l \<noteq> JArray [] \<longrightarrow> published l)"
  using listings_consistent_get [OF reachable_consistent [OF assms(1)] assms(2)]
  by (auto simp: publish_consistent_def)

theorem published_iff_posted_witness:
  "published loft_published \<and> postedOn loft_published \<noteq> None
   \<and> availability loft_published \<noteq> JArray []"
proof -
  have "obj_get (listings booked_state) ''549999999'' = Some loft_published"
    by (simp add: obj_get_def booked_state_def)
  from published_iff_posted [OF booked_state_reachable this]
  show ?thesis by (simp add: loft_published_def)
qed

section \<open>Saving\<close>

text \<open>
  Claim C6: when the save to the remote store fails and the write of the local file
  succeeds, \<open>save\<close> resolves and the file holds the snapshot of the three collections;
  \<open>save\<close> rejects, with the storage error, exactly when the first write and the fallback
  write both fail; in every case the collections in memory are as they were.
\<close>

theorem save_falls_back:
  "(hasRedisCredentials e \<and> redis_set_fails e \<and> \<not> fallback_write_fails e \<longrightarrow>
      fst (save e w) = Inr () \<and> database_file (store (snd (save e w))) = Some (mem w))
   \<and> ((\<exists>err. fst (save e w) = Inl err) \<longleftrightarrow> primary_fails e \<and> fallback_write_fails e)
   \<and> (primary_fails e \<and> fallback_write_fails e \<longrightarrow>
        fst (save e w) = Inl (Error ''Writing to storage failed''))
   \<and> mem (snd (save e w)) = mem w"
  by (simp add: save_def update_def fallback_write_def primary_fails_def Let_def)

theorem save_falls_back_witness:
  "fst (save redis_down \<lparr> mem = loft_state, store = fresh_store \<rparr>) = Inr ()
   \<and> database_file (store (snd (save redis_down \<lparr> mem = loft_state, store = fresh_store \<rparr>)))
       = Some loft_state
   \<and> fst (save all_down \<lparr> mem = loft_state, store = fresh_store \<rparr>)
       = Inl (Error ''Writing to storage failed'')
   \<and> mem (snd (save all_down \<lparr> mem = loft_state, store = fresh_store \<rparr>)) = loft_state"
  using save_falls_back [of redis_down "\<lparr> mem = loft_state, store = fresh_store \<rparr>"]
    save_falls_back [of all_down "\<lparr> mem = loft_state, store = fresh_store \<rparr>"]
  by (simp add: redis_down_def all_down_def primary_fails_def)

section \<open>Reset\<close>

lemma update_result:
  "update u l b e st =
     (if primary_fails e \<and> fallback_write_fails e
      then (Inl (Error ''Writing to storage failed''), st)
      else (Inr (),
            if hasRedisCredentials e \<and> \<not> redis_set_fails e
            then st\<lparr>redis_data := Some \<lparr> users = u, listings = l, bookings = b \<rparr>\<rparr>
            else st\<lparr>database_file := Some \<lparr> users = u, listings = l, bookings = b \<rparr>\<rparr>))"
  by (simp add: update_def fallback_write_def primary_fails_def Let_def)

lemma reset_result:
  "reset e w =
     (if primary_fails e \<and> fallback_write_fails e
      then (Inl (Error ''Writing to storage failed''), w)
      else (Inr (),
            \<lparr> mem = empty_state,
              store = (if hasRedisCredentials e \<and> \<not> redis_set_fails e
                       then (store w)\<lparr>redis_data := Some empty_state\<rparr>
                       else (store w)\<lparr>database_file := Some empty_state\<rparr>) \<rparr>))"
  by (simp add: reset_def update_result empty_state_def)

text \<open>
  Claim C7, as stated: \<open>reset\<close> replaces the three collections with empty ones and persists
  the empty snapshot before returning, and two calls in a row both succeed and leave the
  collections empty. \<open>reset\<close> awaits the save first: when the first write and the fallback
  write both fail it rejects, and the collections keep their content.
\<close>

theorem reset_rejected_keeps_collections:
  "fst (reset all_down \<lparr> mem = loft_state, store = fresh_store \<rparr>)
     = Inl (Error ''Writing to storage failed'')
   \<and> mem (snd (reset all_down \<lparr> mem = loft_state, store = fresh_store \<rparr>)) = loft_state
   \<and> listings loft_state = [(''549999999'', loft)]"
  by (simp add: reset_def update_def fallback_write_def all_down_def loft_state_def)

text \<open>
  Claim C7, amended: when the first write or the fallback write of the save succeeds,
  \<open>reset\<close> persists the empty snapshot (in the store that took the write), replaces the three
  collections with empty ones and resolves, and a second such \<open>reset\<close> resolves again and
  leaves them empty; when both writes fail, \<open>reset\<close> rejects with the storage error and
  changes nothing.
\<close>

theorem reset_saves_then_clears:
  "(\<not> (primary_fails e \<and> fallback_write_fails e) \<longrightarrow>
      fst (reset e w) = Inr ()
      \<and> mem (snd (reset e w)) = empty_state
      \<and> (if hasRedisCredentials e \<and> \<not> redis_set_fails e
          then redis_data (store (snd (reset e w)))
          else database_file (store (snd (reset e w)))) = Some empty_state
      \<and> (\<not> (primary_fails e2 \<and> fallback_write_fails e2) \<longrightarrow>
            fst (reset e2 (snd (reset e w))) = Inr ()
            \<and> mem (snd (reset e2 (snd (reset e w)))) = empty_state))
   \<and> (primary_fails e \<and> fallback_write_fails e \<longrightarrow>
        fst (reset e w) = Inl (Error ''Writing to storage failed'') \<and> snd (reset e w) = w)"
  by (simp add: reset_result)

theorem reset_saves_then_clears_witness:
  "fst (reset file_only \<lparr> mem = loft_state, store = fresh_store \<rparr>) = Inr ()
   \<and> mem (snd (reset file_only \<lparr> mem = loft_state, store = fresh_store \<rparr>)) = empty_state
   \<and> database_file (store (snd (reset file_only \<lparr> mem = loft_state, store = fresh_store \<rparr>)))
       = Some empty_state
   \<and> fst (reset redis_down (snd (reset file_only \<lparr> mem = loft_state, store = fresh_store \<rparr>)))
       = Inr ()
   \<and> mem (snd (reset redis_down
                  (snd (reset file_only \<lparr> mem = loft_state, store = fresh_store \<rparr>))))
       = empty_state
   \<and> snd (reset all_down \<lparr> mem = loft_state, store = fresh_store \<rparr>)
       = \<lparr> mem = loft_state, store = fresh_store \<rparr>"
  using reset_saves_then_clears [where e = file_only and ?e2.0 = redis_down
      and w = "\<lparr> mem = loft_state, store = fresh_store \<rparr>"]
    reset_saves_then_clears [where e = all_down
      and w = "\<lparr> mem = loft_state, store = fresh_store \<rparr>"]
  by (simp add: file_only_def redis_down_def all_down_def primary_fails_def)

section \<open>Enumeration\<close>

lemma those_map_Some:
  "\<forall>k \<in> set ks. g k \<noteq> None \<Longrightarrow>
   those (map (\<lambda>k. map_option (f k) (g k)) ks) = Some (map (\<lambda>k. f k (the (g k))) ks)"
  by (induction ks) auto

lemma key_has_value: "k \<in> set (Object_keys obj) \<Longrightarrow> obj_get obj k \<noteq> None"
  using obj_get_has_key[of k obj] by (simp add: set_Object_keys has_key_def)

lemma getAllListings_result:
  "getAllListings p s =
     (Inr (map (\<lambda>key. listing_entry p key (the (obj_get (listings s) key)))
               (Object_keys (listings s))), s)"
  by (simp add: getAllListings_def resourceLock_def those_map_Some key_has_value)

lemma getAllBookings_result:
  "getAllBookings p s =
     (Inr (map (\<lambda>key. booking_entry p key (the (obj_get (bookings s) key)))
               (Object_keys (bookings s))), s)"
  by (simp add: getAllBookings_def resourceLock_def those_map_Some key_has_value)

lemma Object_keys_map_values:
  "Object_keys (map (\<lambda>p. (fst p, f (snd p))) obj) = Object_keys obj"
  by (simp add: Object_keys_def comp_def)

lemma obj_get_map_values:
  "obj_get (map (\<lambda>p. (fst p, f (snd p))) obj) k = map_option f (obj_get obj k)"
  by (induction obj) (auto simp: obj_get_def)

lemma listing_entry_hide: "listing_entry p key (hide_listing l) = listing_entry p key l"
  by (simp add: listing_entry_def hide_listing_def)

lemma listing_views_hide:
  "map (\<lambda>key. listing_entry p key (the (obj_get obj key))) (Object_keys obj)
   = map (\<lambda>key. listing_entry p key
                   (the (obj_get (map (\<lambda>q. (fst q, hide_listing (snd q))) obj) key)))
         (Object_keys (map (\<lambda>q. (fst q, hide_listing (snd q))) obj))"
proof -
  have "listing_entry p key (the (obj_get obj key))
        = listing_entry p key
            (the (obj_get (map (\<lambda>q. (fst q, hide_listing (snd q))) obj) key))"
    if "key \<in> set (Object_keys obj)" for key
  proof -
    from key_has_value [OF that] obtain l where "obj_get obj key = Some l" by auto
    then show ?thesis by (simp add: obj_get_map_values listing_entry_hide)
  qed
  then show ?thesis by (simp add: Object_keys_map_values)
qed

text \<open>
  Claim C9: \<open>getAllListings\<close> returns, for each key of \<open>listings\<close> in the order of
  \<open>Object.keys\<close>, a record of exactly \<open>id\<close> (\<^verbatim>\<open>parseInt(key, 10)\<close>), \<open>title\<close>, \<open>owner\<close>, \<open>address\<close>,
  \<open>thumbnail\<close>, \<open>price\<close> and \<open>reviews\<close>, each field that of the listing under the key;
  \<open>getAllBookings\<close> returns likewise \<open>id\<close>, \<open>owner\<close>, \<open>dateRange\<close>, \<open>totalPrice\<close>, \<open>listingId\<close> and
  \<open>status\<close>. Two states that differ only in the \<open>metadata\<close>, \<open>availability\<close>, \<open>published\<close> or
  \<open>postedOn\<close> of listings, or in passwords, give the same two results.
\<close>

theorem enumerations_project:
  "(\<exists>vs. getAllListings parseInt10 s = (Inr vs, s)
         \<and> list_all2
              (\<lambda>key v. \<exists>l. obj_get (listings s) key = Some l
                 \<and> lv_id v = parseInt10 key
                 \<and> lv_title v = title l
                 \<and> lv_owner v = listing.owner l
                 \<and> lv_address v = address l
                 \<and> lv_thumbnail v = thumbnail l
                 \<and> lv_price v = price l
                 \<and> lv_reviews v = reviews l)
              (Object_keys (listings s)) vs)
   \<and> (\<exists>vs. getAllBookings parseInt10 s = (Inr vs, s)
         \<and> list_all2
              (\<lambda>key v. \<exists>b. obj_get (bookings s) key = Some b
                 \<and> bv_id v = parseInt10 key
                 \<and> bv_owner v = booking.owner b
                 \<and> bv_dateRange v = dateRange b
                 \<and> bv_totalPrice v = totalPrice b
                 \<and> bv_listingId v = listingId b
                 \<and> bv_status v = status b)
              (Object_keys (bookings s)) vs)
   \<and> (same_public s t \<longrightarrow>
        fst (getAllListings parseInt10 s) = fst (getAllListings parseInt10 t)
        \<and> fst (getAllBookings parseInt10 s) = fst (getAllBookings parseInt10 t))"
proof (intro conjI impI)
  show "\<exists>vs. getAllListings parseInt10 s = (Inr vs, s)
         \<and> list_all2
              (\<lambda>key v. \<exists>l. obj_get (listings s) key = Some l
                 \<and> lv_id v = parseInt10 key
                 \<and> lv_title v = title l
                 \<and> lv_owner v = listing.owner l
                 \<and> lv_address v = address l
                 \<and> lv_thumbnail v = thumbnail l
                 \<and> lv_price v = price l
                 \<and> lv_reviews v = reviews l)
              (Object_keys (listings s)) vs"
    using key_has_value [of _ "listings s"]
    by (fastforce simp: getAllListings_result list_all2_map2 list_all2_same listing_entry_def)
  show "\<exists>vs. getAllBookings parseInt10 s = (Inr vs, s)
         \<and> list_all2
              (\<lambda>key v. \<exists>b. obj_get (bookings s) key = Some b
                 \<and> bv_id v = parseInt10 key
                 \<and> bv_owner v = booking.owner b
                 \<and> bv_dateRange v = dateRange b
                 \<and> bv_totalPrice v = totalPrice b
                 \<and> bv_listingId v = listingId b
                 \<and> bv_status v = status b)
              (Object_keys (bookings s)) vs"
    using key_has_value [of _ "bookings s"]
    by (fastforce simp: getAllBookings_result list_all2_map2 list_all2_same booking_entry_def)
next
  assume "same_public s t"
  then have l: "map (\<lambda>p. (fst p, hide_listing (snd p))) (listings s)
                = map (\<lambda>p. (fst p, hide_listing (snd p))) (listings t)"
    and b: "bookings s = bookings t"
    by (simp_all add: same_public_def)
  show "fst (getAllListings parseInt10 s) = fst (getAllListings parseInt10 t)"
    using listing_views_hide [of parseInt10 "listings s"]
      listing_views_hide [of parseInt10 "listings t"] l
    by (simp add: getAllListings_result)
  show "fst (getAllBookings parseInt10 s) = fst (getAllBookings parseInt10 t)"
    using b by (simp add: getAllBookings_result)
qed

theorem enumerations_project_witness:
  "fst (getAllListings decimal_value ann_loft) = fst (getAllListings decimal_value ann_loft_other)
   \<and> fst (getAllBookings decimal_value ann_loft)
       = fst (getAllBookings decimal_value ann_loft_other)
   \<and> fst (getAllListings decimal_value ann_loft_other)
     = Inr [\<lparr> lv_id = Num 549999999, lv_title = JString ''Loft'', lv_owner = ''a@x.com'',
              lv_address = JString ''1 Rd'', lv_thumbnail = JString ''t.png'',
              lv_price = Some (Num 100), lv_reviews = [] \<rparr>]
   \<and> fst (getAllBookings decimal_value ann_loft_other)
     = Inr [\<lparr> bv_id = Num 324999999, bv_owner = ''c@x.com'', bv_dateRange = JString ''1-2 Jan'',
              bv_totalPrice = Some (Num 200), bv_listingId = ''549999999'',
              bv_status = ''pending'' \<rparr>]"
proof -
  have same: "same_public ann_loft ann_loft_other"
    by (simp add: same_public_def ann_loft_def ann_loft_other_def loft_published_def
        hide_listing_def hide_user_def)
  have id1: "decimal_value ''549999999'' = Num 549999999"
    by (simp add: decimal_value_def is_digit_def digits_val_def digit_val_def)
  have id2: "decimal_value ''324999999'' = Num 324999999"
    by (simp add: decimal_value_def is_digit_def digits_val_def digit_val_def)
  have k2: "Object_keys [(''324999999'', x)] = [''324999999'']" for x :: booking
    by (simp add: Object_keys_def is_array_index_def is_digit_def digits_val_def digit_val_def)
  have l: "fst (getAllListings decimal_value ann_loft_other)
     = Inr [\<lparr> lv_id = Num 549999999, lv_title = JString ''Loft'', lv_owner = ''a@x.com'',
              lv_address = JString ''1 Rd'', lv_thumbnail = JString ''t.png'',
              lv_price = Some (Num 100), lv_reviews = [] \<rparr>]"
    by (simp add: getAllListings_result ann_loft_other_def keys_one obj_get_def
        listing_entry_def id1 loft_published_def loft_def newListingPayload_def)
  have b: "fst (getAllBookings decimal_value ann_loft_other)
     = Inr [\<lparr> bv_id = Num 324999999, bv_owner = ''c@x.com'', bv_dateRange = JString ''1-2 Jan'',
              bv_totalPrice = Some (Num 200), bv_listingId = ''549999999'',
              bv_status = ''pending'' \<rparr>]"
    by (simp add: getAllBookings_result ann_loft_other_def k2 obj_get_def
        booking_entry_def id2 stay_def newBookingPayload_def)
  from same l b enumerations_project [of decimal_value ann_loft ann_loft_other] show ?thesis
    by simp
qed

section \<open>Removal\<close>

text \<open>
  Claim C10: \<open>removeListing\<close> and \<open>removeBooking\<close> resolve for every id; for an id that is
  not there the state is unchanged, so removing twice is removing once; \<open>removeListing\<close>
  deletes the named listing only and leaves the users and the bookings, also those that
  refer to the listing removed, as they were.
\<close>

theorem removal_never_rejects:
  "fst (removeListing listingId' s) = Inr ()
   \<and> fst (removeBooking bookingId s) = Inr ()
   \<and> (\<not> has_key listingId' (listings s) \<longrightarrow> snd (removeListing listingId' s) = s)
   \<and> (\<not> has_key bookingId (bookings s) \<longrightarrow> snd (removeBooking bookingId s) = s)
   \<and> snd (removeListing listingId' (snd (removeListing listingId' s)))
       = snd (removeListing listingId' s)
   \<and> snd (removeBooking bookingId (snd (removeBooking bookingId s)))
       = snd (removeBooking bookingId s)
   \<and> users (snd (removeListing listingId' s)) = users s
   \<and> bookings (snd (removeListing listingId' s)) = bookings s
   \<and> obj_get (listings (snd (removeListing listingId' s))) listingId' = None
   \<and> (k \<noteq> listingId' \<longrightarrow>
        obj_get (listings (snd (removeListing listingId' s))) k = obj_get (listings s) k)"
  by (simp add: removeListing_def removeBooking_def resourceLock_def obj_delete_absent
      obj_delete_twice obj_get_obj_delete)

theorem removal_never_rejects_witness:
  "snd (removeListing ''1'' booked_state) = booked_state
   \<and> snd (removeBooking ''1'' booked_state) = booked_state
   \<and> bookings (snd (removeListing ''549999999'' booked_state))
       = [(''324999999'', stay\<lparr>status := ''accepted''\<rparr>)]
   \<and> listingId (stay\<lparr>status := ''accepted''\<rparr>) = ''549999999''
   \<and> obj_get (listings (snd (removeListing ''549999999'' two_listings))) ''324999999''
       = Some barn"
proof -
  have "\<not> has_key ''1'' (listings booked_state)" "\<not> has_key ''1'' (bookings booked_state)"
    by (simp_all add: has_key_def booked_state_def)
  moreover have "bookings booked_state = [(''324999999'', stay\<lparr>status := ''accepted''\<rparr>)]"
    by (simp add: booked_state_def)
  moreover have "listingId (stay\<lparr>status := ''accepted''\<rparr>) = ''549999999''"
    by (simp add: stay_def newBookingPayload_def)
  moreover have "obj_get (listings two_listings) ''324999999'' = Some barn"
    by (simp add: obj_get_def two_listings_def)
  ultimately show ?thesis
    using removal_never_rejects [of "''1''" booked_state "''1''"]
      removal_never_rejects [of "''549999999''" booked_state]
      removal_never_rejects [of "''549999999''" two_listings _ "''324999999''"]
    by simp
qed

end
